theory Spec2Isabelle
  imports Complex_Main "HOL-Library.Sublist" "HOL-Library.Word"
begin

section \<open>Numbers\<close>

text \<open>
  The client computes with JavaScript numbers (IEEE doubles) and the stored procedures with
  PostgreSQL \<open>DECIMAL\<close> and \<open>double precision\<close> values. Both are modelled by exact
  reals: a number is its mathematical value and the rounding of the machine arithmetic is
  not modelled. What the two environments do outside the domain of a function is kept:
  \<open>Math.sqrt\<close> of a negative number is \<open>NaN\<close>, PostgreSQL's \<open>sqrt\<close> of a negative
  number raises an error.

  Where machine rounding decides the outcome, the programs and this model part. Over the
  reals the value \<open>a\<close> under the square roots lies between 0 and 1, so the model never
  takes the \<open>NaN\<close> branch or the error branch. In double arithmetic \<open>a\<close> can come out just
  above 1 at nearly antipodal points (from \<open>(8, 0)\<close> to \<open>(-8, 180)\<close> it is
  \<open>1.0000000000000002\<close>), where \<open>getDistanceFrom\<close> returns \<open>NaN\<close>, and just below 0
  for latitudes beyond 90 degrees, where \<open>calculate_distance\<close> raises. The two
  environments also round differently (\<open>DECIMAL\<close> variables keep 15 significant digits
  of a \<open>double precision\<close> value), so near the antipode their distances for the same
  coordinates differ by up to about a metre. The theorems that relate the client's value
  to the query's are therefore stated for coordinates in range, for results that are
  numbers, and up to one unit of the second decimal place.
\<close>

text \<open>\<open>atan2(y, x)\<close> of both environments: the angle of the point \<open>(x, y)\<close>, with
  \<open>atan2(0, 0) = 0\<close>.\<close>

definition atan2 :: "real \<Rightarrow> real \<Rightarrow> real" where
  "atan2 y x =
     (if 0 < x then arctan (y / x)
      else if x < 0 then (if 0 \<le> y then arctan (y / x) + pi else arctan (y / x) - pi)
      else if 0 < y then pi / 2
      else if y < 0 then - (pi / 2)
      else 0)"

section \<open>The location store (client)\<close>

text \<open>
  \<^verbatim>\<open>
  const useLocationStore = create((set, get) => ({
    userLocation: null,
    locationError: null,
    isLocating: false,
    ...
  \<close>
  A location object is \<open>{ lat, lng, accuracy }\<close> when it comes from the browser and
  \<open>{ lat, lng }\<close> when it is set by hand; \<open>null\<close> is \<open>None\<close>. The type of a
  coordinate is a parameter: the mutators store whatever they are given.
\<close>

record 'v location =
  lat :: 'v
  lng :: 'v
  accuracy :: "'v option"

record 'v location_store =
  userLocation :: "'v location option"
  locationError :: "string option"
  isLocating :: bool

definition initial_store :: "'v location_store" where
  "initial_store = \<lparr>userLocation = None, locationError = None, isLocating = False\<rparr>"

text \<open>
  \<^verbatim>\<open>
  setLocation: (lat, lng) => {
    set({ userLocation: { lat, lng }, locationError: null });
  },
  clearLocation: () => {
    set({ userLocation: null, locationError: null });
  },
  \<close>
  \<open>set\<close> merges the given fields into the state and leaves the others.
\<close>

definition setLocation :: "'v \<Rightarrow> 'v \<Rightarrow> 'v location_store \<Rightarrow> 'v location_store" where
  "setLocation lat' lng' st =
     st\<lparr>userLocation := Some \<lparr>lat = lat', lng = lng', accuracy = None\<rparr>,
        locationError := None\<rparr>"

definition clearLocation :: "'v location_store \<Rightarrow> 'v location_store" where
  "clearLocation st = st\<lparr>userLocation := None, locationError := None\<rparr>"

subsection \<open>Distance from the user to a point\<close>

text \<open>\<^verbatim>\<open>const toRad = (deg) => deg * (Math.PI / 180);\<close>\<close>

definition toRad :: "real \<Rightarrow> real" where
  "toRad deg = deg * (pi / 180)"

text \<open>\<open>Math.sqrt\<close>: \<open>None\<close> is \<open>NaN\<close>.\<close>

definition Math_sqrt :: "real \<Rightarrow> real option" where
  "Math_sqrt x = (if x < 0 then None else Some (sqrt x))"

text \<open>\<open>Math.round\<close>: the nearest integer, a tie going up.\<close>

definition Math_round :: "real \<Rightarrow> int" where
  "Math_round x = \<lfloor>x + 1 / 2\<rfloor>"

datatype js_value = Null | NaN | Num real

text \<open>
  \<^verbatim>\<open>
  getDistanceFrom: (lat, lng) => {
    const { userLocation } = get();
    if (!userLocation) return null;
    const R = 6371; // Earth's radius in km
    const dLat = toRad(lat - userLocation.lat);
    const dLon = toRad(lng - userLocation.lng);
    const a =
      Math.sin(dLat / 2) * Math.sin(dLat / 2) +
      Math.cos(toRad(userLocation.lat)) * Math.cos(toRad(lat)) *
        Math.sin(dLon / 2) * Math.sin(dLon / 2);
    const c = 2 * Math.atan2(Math.sqrt(a), Math.sqrt(1 - a));
    return Math.round(R * c * 100) / 100; // Round to 2 decimal places
  },
  \<close>
  A \<open>NaN\<close> from either square root makes every later value \<open>NaN\<close>.
\<close>

definition getDistanceFrom :: "real location_store \<Rightarrow> real \<Rightarrow> real \<Rightarrow> js_value" where
  "getDistanceFrom st lat' lng' =
     (case userLocation st of
        None \<Rightarrow> Null
      | Some loc \<Rightarrow>
          (let R = 6371;
               dLat = toRad (lat' - lat loc);
               dLon = toRad (lng' - lng loc);
               a = sin (dLat / 2) * sin (dLat / 2) +
                   cos (toRad (lat loc)) * cos (toRad lat') * sin (dLon / 2) * sin (dLon / 2)
           in case Math_sqrt a of
                None \<Rightarrow> NaN
              | Some p \<Rightarrow>
                  (case Math_sqrt (1 - a) of
                     None \<Rightarrow> NaN
                   | Some q \<Rightarrow>
                       (let c = 2 * atan2 p q
                        in Num (real_of_int (Math_round (R * c * 100)) / 100)))))"

subsection \<open>Asking the browser for the position\<close>

text \<open>
  \<^verbatim>\<open>
  getUserLocation: () => {
    return new Promise((resolve, reject) => {
      set({ isLocating: true, locationError: null });
      if (!navigator.geolocation) {
        const error = 'Geolocation is not supported by your browser';
        set({ locationError: error, isLocating: false });
        reject(new Error(error));
        return;
      }
      navigator.geolocation.getCurrentPosition(
        (position) => { ... set({ userLocation: location, isLocating: false }); resolve(location); },
        (error) => { ... set({ locationError: errorMessage, isLocating: false }); reject(new Error(errorMessage)); },
        { enableHighAccuracy: true, timeout: 10000, maximumAge: 300000 });
    });
  },
  \<close>
  The call runs up to \<open>getCurrentPosition\<close> at once; the browser calls one of the two
  callbacks later. The three pieces are three functions on the store, each returning how
  the promise is settled, if it is.
\<close>

record 'v coords =
  coords_latitude :: 'v
  coords_longitude :: 'v
  coords_accuracy :: 'v

datatype 'v settled = Resolved "'v location" | Rejected string

definition getUserLocation_call ::
  "bool \<Rightarrow> 'v location_store \<Rightarrow> 'v location_store \<times> 'v settled option" where
  "getUserLocation_call has_geolocation st =
     (let st1 = st\<lparr>isLocating := True, locationError := None\<rparr>
      in if \<not> has_geolocation then
           (let error = ''Geolocation is not supported by your browser''
            in (st1\<lparr>locationError := Some error, isLocating := False\<rparr>, Some (Rejected error)))
         else (st1, None))"

definition position_callback ::
  "'v coords \<Rightarrow> 'v location_store \<Rightarrow> 'v location_store \<times> 'v settled" where
  "position_callback position st =
     (let location = \<lparr>lat = coords_latitude position, lng = coords_longitude position,
                      accuracy = Some (coords_accuracy position)\<rparr>
      in (st\<lparr>userLocation := Some location, isLocating := False\<rparr>, Resolved location))"

text \<open>The codes of a \<open>GeolocationPositionError\<close>: \<open>PERMISSION_DENIED = 1\<close>,
  \<open>POSITION_UNAVAILABLE = 2\<close>, \<open>TIMEOUT = 3\<close>. The \<open>switch\<close> has no default branch,
  so any other code keeps the first message.\<close>

definition error_message :: "nat \<Rightarrow> string" where
  "error_message code =
     (if code = 1 then ''Location permission denied. Please enable location access.''
      else if code = 2 then ''Location information unavailable.''
      else if code = 3 then ''Location request timed out.''
      else ''Unable to get your location'')"

definition error_callback ::
  "nat \<Rightarrow> 'v location_store \<Rightarrow> 'v location_store \<times> 'v settled" where
  "error_callback code st =
     (let errorMessage = error_message code
      in (st\<lparr>locationError := Some errorMessage, isLocating := False\<rparr>, Rejected errorMessage))"

text \<open>One request from its call to its end, with nothing else in between.\<close>

datatype 'v geo_outcome = Unsupported | Position "'v coords" | PositionError nat

fun getUserLocation :: "'v geo_outcome \<Rightarrow> 'v location_store \<Rightarrow> 'v location_store \<times> 'v settled option" where
  "getUserLocation Unsupported st = getUserLocation_call False st"
| "getUserLocation (Position p) st =
     (case position_callback p (fst (getUserLocation_call True st)) of (st', r) \<Rightarrow> (st', Some r))"
| "getUserLocation (PositionError code) st =
     (case error_callback code (fst (getUserLocation_call True st)) of (st', r) \<Rightarrow> (st', Some r))"

text \<open>
  Requests may overlap and the mutators may run while a request is pending, so the store
  is also run on a sequence of events. \<open>in_flight\<close> counts the requests handed to the
  browser whose callback has not been called yet; a callback is delivered only to a
  pending request.
\<close>

record 'v app =
  store :: "'v location_store"
  in_flight :: nat

datatype 'v event =
    GetUserLocation bool
  | PositionCallback "'v coords"
  | ErrorCallback nat
  | SetLocation 'v 'v
  | ClearLocation

fun step :: "'v event \<Rightarrow> 'v app \<Rightarrow> 'v app" where
  "step (GetUserLocation has_geolocation) ap =
     (case getUserLocation_call has_geolocation (store ap) of
        (st', Some _) \<Rightarrow> ap\<lparr>store := st'\<rparr>
      | (st', None) \<Rightarrow> ap\<lparr>store := st', in_flight := Suc (in_flight ap)\<rparr>)"
| "step (PositionCallback p) ap =
     (if in_flight ap = 0 then ap
      else ap\<lparr>store := fst (position_callback p (store ap)), in_flight := in_flight ap - 1\<rparr>)"
| "step (ErrorCallback code) ap =
     (if in_flight ap = 0 then ap
      else ap\<lparr>store := fst (error_callback code (store ap)), in_flight := in_flight ap - 1\<rparr>)"
| "step (SetLocation lat' lng') ap = ap\<lparr>store := setLocation lat' lng' (store ap)\<rparr>"
| "step ClearLocation ap = ap\<lparr>store := clearLocation (store ap)\<rparr>"

fun run :: "'v event list \<Rightarrow> 'v app \<Rightarrow> 'v app" where
  "run [] ap = ap"
| "run (e # es) ap = run es (step e ap)"

definition initial_app :: "'v app" where
  "initial_app = \<lparr>store = initial_store, in_flight = 0\<rparr>"

section \<open>The stored procedures (query side)\<close>

datatype pg_error =
    SqrtOfNegative    \<comment> \<open>cannot take square root of a negative number\<close>
  | LikeEscapeAtEnd   \<comment> \<open>LIKE pattern must not end with escape character\<close>

definition radians :: "real \<Rightarrow> real" where
  "radians deg = deg * (pi / 180)"

definition pg_sqrt :: "real \<Rightarrow> pg_error + real" where
  "pg_sqrt x = (if x < 0 then Inl SqrtOfNegative else Inr (sqrt x))"

text \<open>
  \<^verbatim>\<open>
  CREATE OR REPLACE FUNCTION calculate_distance(lat1 DECIMAL, lon1 DECIMAL, lat2 DECIMAL, lon2 DECIMAL)
  RETURNS DECIMAL AS $$
  DECLARE R DECIMAL := 6371; dlat DECIMAL; dlon DECIMAL; a DECIMAL; c DECIMAL;
  BEGIN
      dlat := radians(lat2 - lat1);
      dlon := radians(lon2 - lon1);
      a := sin(dlat/2) * sin(dlat/2) + cos(radians(lat1)) * cos(radians(lat2)) * sin(dlon/2) * sin(dlon/2);
      c := 2 * atan2(sqrt(a), sqrt(1-a));
      RETURN R * c;
  END;
  \<close>
\<close>

definition calculate_distance :: "real \<Rightarrow> real \<Rightarrow> real \<Rightarrow> real \<Rightarrow> pg_error + real" where
  "calculate_distance lat1 lon1 lat2 lon2 =
     (let R = 6371;
          dlat = radians (lat2 - lat1);
          dlon = radians (lon2 - lon1);
          a = sin (dlat / 2) * sin (dlat / 2) +
              cos (radians lat1) * cos (radians lat2) * sin (dlon / 2) * sin (dlon / 2)
      in case pg_sqrt a of
           Inl e \<Rightarrow> Inl e
         | Inr p \<Rightarrow>
             (case pg_sqrt (1 - a) of
                Inl e \<Rightarrow> Inl e
              | Inr q \<Rightarrow> (let c = 2 * atan2 p q in Inr (R * c))))"

subsection \<open>Tables\<close>

text \<open>
  The columns of \<open>medicines\<close> and \<open>stores\<close> that the search reads, under the aliases
  \<open>m\<close> and \<open>s\<close> of the query. A column without \<open>NOT NULL\<close> is an option, \<open>None\<close>
  being \<open>NULL\<close>: \<open>generic_name\<close>, \<open>image_url\<close>, \<open>is_available BOOLEAN DEFAULT TRUE\<close>
  and \<open>is_open BOOLEAN DEFAULT TRUE\<close>.
\<close>

type_synonym uuid = "128 word"

record medicine =
  m_id :: uuid
  m_store_id :: uuid
  m_name :: string
  m_generic_name :: "string option"
  m_price :: real
  m_quantity :: int
  m_image_url :: "string option"
  m_is_available :: "bool option"

record store_row =
  s_id :: uuid
  s_store_name :: string
  s_address :: string
  s_latitude :: real
  s_longitude :: real
  s_phone :: string
  s_is_open :: "bool option"

text \<open>A row of the \<open>RETURNS TABLE\<close> of \<open>search_medicines_nearby\<close>.\<close>

record search_result =
  medicine_id :: uuid
  medicine_name :: string
  generic_name :: "string option"
  price :: real
  quantity :: int
  image_url :: "string option"
  store_id :: uuid
  store_name :: string
  store_address :: string
  store_lat :: real
  store_lon :: real
  store_phone :: string
  distance_km :: real

subsection \<open>Three-valued logic\<close>

text \<open>A condition is \<open>Some True\<close>, \<open>Some False\<close> or \<open>None\<close> (unknown); \<open>WHERE\<close>
  keeps a row only when its condition is \<open>Some True\<close>.\<close>

fun sql_and :: "bool option \<Rightarrow> bool option \<Rightarrow> bool option" where
  "sql_and (Some False) _ = Some False"
| "sql_and _ (Some False) = Some False"
| "sql_and (Some True) (Some True) = Some True"
| "sql_and _ _ = None"

fun sql_or :: "bool option \<Rightarrow> bool option \<Rightarrow> bool option" where
  "sql_or (Some True) _ = Some True"
| "sql_or _ (Some True) = Some True"
| "sql_or (Some False) (Some False) = Some False"
| "sql_or _ _ = None"

subsection \<open>\<open>ILIKE\<close>\<close>

text \<open>
  In a \<open>LIKE\<close> pattern \<open>%\<close> stands for any sequence of characters, \<open>_\<close> for any
  single character, and the character after a backslash stands for itself. A string is
  a list of bytes; \<open>ILIKE\<close> compares without regard to the case of the letters
  \<open>A\<close> to \<open>Z\<close> (the case mapping of other characters depends on the locale of the
  database and is left out).
\<close>

definition like_escape :: char where
  "like_escape = CHR 0x5C"

fun MatchText :: "string \<Rightarrow> string \<Rightarrow> bool" where
  "MatchText t [] = (t = [])"
| "MatchText t (p # ps) =
     (if p = like_escape then
        (case ps of
           [] \<Rightarrow> False
         | q # qs \<Rightarrow> (case t of [] \<Rightarrow> False | c # cs \<Rightarrow> c = q \<and> MatchText cs qs))
      else if p = CHR ''%'' then
        (MatchText t ps \<or> (case t of [] \<Rightarrow> False | c # cs \<Rightarrow> MatchText cs (p # ps)))
      else if p = CHR ''_'' then
        (case t of [] \<Rightarrow> False | c # cs \<Rightarrow> MatchText cs ps)
      else
        (case t of [] \<Rightarrow> False | c # cs \<Rightarrow> c = p \<and> MatchText cs ps))"

text \<open>A pattern whose last character is an escape character that escapes nothing is
  an error of the query.\<close>

fun ends_with_escape :: "string \<Rightarrow> bool" where
  "ends_with_escape [] = False"
| "ends_with_escape [p] = (p = like_escape)"
| "ends_with_escape (p # q # ps) =
     (if p = like_escape then ends_with_escape ps else ends_with_escape (q # ps))"

definition lower_char :: "char \<Rightarrow> char" where
  "lower_char c =
     (if 65 \<le> (of_char c :: nat) \<and> (of_char c :: nat) \<le> 90
      then char_of (of_char c + 32 :: nat) else c)"

definition lower :: "string \<Rightarrow> string" where
  "lower s = map lower_char s"

definition sql_ilike :: "string \<Rightarrow> string \<Rightarrow> pg_error + bool" where
  "sql_ilike t p =
     (if ends_with_escape p then Inl LikeEscapeAtEnd
      else Inr (MatchText (lower t) (lower p)))"

subsection \<open>The search\<close>

text \<open>
  \<^verbatim>\<open>
  RETURN QUERY
  SELECT m.id as medicine_id, m.name as medicine_name, m.generic_name, m.price, m.quantity,
         m.image_url, s.id as store_id, s.store_name, s.address as store_address,
         s.latitude as store_lat, s.longitude as store_lon, s.phone as store_phone,
         calculate_distance(user_lat, user_lon, s.latitude, s.longitude) as distance_km
  FROM medicines m
  JOIN stores s ON m.store_id = s.id
  WHERE m.is_available = true
    AND m.quantity > 0
    AND s.is_open = true
    AND (m.name ILIKE '%' || search_term || '%' OR m.generic_name ILIKE '%' || search_term || '%')
    AND calculate_distance(user_lat, user_lon, s.latitude, s.longitude) <= radius_km
  ORDER BY distance_km ASC;
  \<close>
  The tables are lists of rows. The arguments of the call are taken to be not \<open>NULL\<close>.
  An error raised while a row is examined is the result of the whole query.
\<close>

definition joined :: "medicine list \<Rightarrow> store_row list \<Rightarrow> (medicine \<times> store_row) list" where
  "joined medicines stores =
     concat (map (\<lambda>m. map (\<lambda>s. (m, s)) (filter (\<lambda>s. m_store_id m = s_id s) stores)) medicines)"

definition like_pattern :: "string \<Rightarrow> string" where
  "like_pattern search_term = ''%'' @ search_term @ ''%''"

definition where_clause ::
  "string \<Rightarrow> real \<Rightarrow> real \<Rightarrow> real \<Rightarrow> medicine \<Rightarrow> store_row \<Rightarrow> pg_error + bool option" where
  "where_clause search_term user_lat user_lon radius_km m s =
     (case sql_ilike (m_name m) (like_pattern search_term) of
        Inl e \<Rightarrow> Inl e
      | Inr name_matches \<Rightarrow>
          (case (case m_generic_name m of
                   None \<Rightarrow> Inr None
                 | Some g \<Rightarrow> map_sum id Some (sql_ilike g (like_pattern search_term))) of
             Inl e \<Rightarrow> Inl e
           | Inr generic_matches \<Rightarrow>
               (case calculate_distance user_lat user_lon (s_latitude s) (s_longitude s) of
                  Inl e \<Rightarrow> Inl e
                | Inr d \<Rightarrow>
                    Inr (sql_and (m_is_available m)
                        (sql_and (Some (m_quantity m > 0))
                        (sql_and (s_is_open s)
                        (sql_and (sql_or (Some name_matches) generic_matches)
                                 (Some (d \<le> radius_km)))))))))"

definition select_list :: "medicine \<Rightarrow> store_row \<Rightarrow> real \<Rightarrow> search_result" where
  "select_list m s d =
     \<lparr>medicine_id = m_id m, medicine_name = m_name m, generic_name = m_generic_name m,
      price = m_price m, quantity = m_quantity m, image_url = m_image_url m,
      store_id = s_id s, store_name = s_store_name s, store_address = s_address s,
      store_lat = s_latitude s, store_lon = s_longitude s, store_phone = s_phone s,
      distance_km = d\<rparr>"

fun select_where ::
  "string \<Rightarrow> real \<Rightarrow> real \<Rightarrow> real \<Rightarrow> (medicine \<times> store_row) list \<Rightarrow> pg_error + search_result list" where
  "select_where search_term user_lat user_lon radius_km [] = Inr []"
| "select_where search_term user_lat user_lon radius_km ((m, s) # ms) =
     (case where_clause search_term user_lat user_lon radius_km m s of
        Inl e \<Rightarrow> Inl e
      | Inr keep \<Rightarrow>
          (case calculate_distance user_lat user_lon (s_latitude s) (s_longitude s) of
             Inl e \<Rightarrow> Inl e
           | Inr d \<Rightarrow>
               (case select_where search_term user_lat user_lon radius_km ms of
                  Inl e \<Rightarrow> Inl e
                | Inr rows \<Rightarrow>
                    Inr (if keep = Some True then select_list m s d # rows else rows))))"

text \<open>\<open>ORDER BY distance_km ASC\<close>: rows of equal distance stay in the order of the
  join (SQL leaves their order open).\<close>

definition search_medicines_nearby ::
  "string \<Rightarrow> real \<Rightarrow> real \<Rightarrow> real \<Rightarrow> medicine list \<Rightarrow> store_row list \<Rightarrow> pg_error + search_result list" where
  "search_medicines_nearby search_term user_lat user_lon radius_km medicines stores =
     (case select_where search_term user_lat user_lon radius_km (joined medicines stores) of
        Inl e \<Rightarrow> Inl e
      | Inr rows \<Rightarrow> Inr (sort_key distance_km rows))"

section \<open>Example data\<close>

text \<open>Two open stores, one at the coordinate \<open>(0, 0)\<close> and one a hundred-thousandth of
  a degree of longitude away (about a metre), each with one medicine in stock.\<close>

definition store_here :: store_row where
  "store_here = \<lparr>s_id = 1, s_store_name = ''City Pharmacy'', s_address = ''1 Main Road'',
     s_latitude = 0, s_longitude = 0, s_phone = ''100'', s_is_open = Some True\<rparr>"

definition store_near :: store_row where
  "store_near = \<lparr>s_id = 2, s_store_name = ''Corner Chemist'', s_address = ''2 Side Road'',
     s_latitude = 0, s_longitude = 1 / 100000, s_phone = ''200'', s_is_open = Some True\<rparr>"

definition med_here :: medicine where
  "med_here = \<lparr>m_id = 10, m_store_id = 1, m_name = ''Paracetamol'',
     m_generic_name = Some ''Acetaminophen'', m_price = 20, m_quantity = 5,
     m_image_url = None, m_is_available = Some True\<rparr>"

definition med_near :: medicine where
  "med_near = \<lparr>m_id = 20, m_store_id = 2, m_name = ''Paracip'',
     m_generic_name = None, m_price = 25, m_quantity = 1,
     m_image_url = None, m_is_available = Some True\<rparr>"

section \<open>Auxiliary notions\<close>

text \<open>The value \<open>a\<close> that both distance functions put under the square roots, and the
  distance \<open>R * c\<close> computed from it when both square roots exist.\<close>

definition hav :: "real \<Rightarrow> real \<Rightarrow> real \<Rightarrow> real \<Rightarrow> real" where
  "hav lat1 lon1 lat2 lon2 =
     sin (radians (lat2 - lat1) / 2) * sin (radians (lat2 - lat1) / 2) +
     cos (radians lat1) * cos (radians lat2) * sin (radians (lon2 - lon1) / 2) * sin (radians (lon2 - lon1) / 2)"

definition central_km :: "real \<Rightarrow> real \<Rightarrow> real \<Rightarrow> real \<Rightarrow> real" where
  "central_km lat1 lon1 lat2 lon2 =
     6371 * (2 * atan2 (sqrt (hav lat1 lon1 lat2 lon2)) (sqrt (1 - hav lat1 lon1 lat2 lon2)))"

text \<open>Following the words of the specification (data model): a coordinate has its
  latitude in \<open>[-90, 90]\<close> and its longitude in \<open>[-180, 180]\<close>.\<close>

definition in_range :: "real \<Rightarrow> real \<Rightarrow> bool" where
  "in_range latitude longitude =
     (- 90 \<le> latitude \<and> latitude \<le> 90 \<and> - 180 \<le> longitude \<and> longitude \<le> 180)"

text \<open>The characters with a meaning of their own in a \<open>LIKE\<close> pattern.\<close>

definition like_special :: "char \<Rightarrow> bool" where
  "like_special c = (c = like_escape \<or> c = CHR ''%'' \<or> c = CHR ''_'')"

text \<open>Following the words of the specification: the term is a substring of the name,
  the case of letters aside.\<close>

definition ci_substring :: "string \<Rightarrow> string \<Rightarrow> bool" where
  "ci_substring search_term name = sublist (lower search_term) (lower name)"

text \<open>The condition of the \<open>WHERE\<close> clause as a truth value, and the rows of the
  result before they are ordered.\<close>

definition row_passes :: "string \<Rightarrow> real \<Rightarrow> real \<Rightarrow> real \<Rightarrow> medicine \<Rightarrow> store_row \<Rightarrow> bool" where
  "row_passes search_term user_lat user_lon radius_km m s =
     (m_is_available m = Some True \<and> 0 < m_quantity m \<and> s_is_open s = Some True \<and>
      (MatchText (lower (m_name m)) (lower (like_pattern search_term)) \<or>
       (case m_generic_name m of
          None \<Rightarrow> False
        | Some g \<Rightarrow> MatchText (lower g) (lower (like_pattern search_term)))) \<and>
      central_km user_lat user_lon (s_latitude s) (s_longitude s) \<le> radius_km)"

definition passing_rows ::
  "string \<Rightarrow> real \<Rightarrow> real \<Rightarrow> real \<Rightarrow> (medicine \<times> store_row) list \<Rightarrow> search_result list" where
  "passing_rows t ulat ulon r ps =
     map (\<lambda>(m, s). select_list m s (central_km ulat ulon (s_latitude s) (s_longitude s)))
       (filter (\<lambda>(m, s). row_passes t ulat ulon r m s) ps)"


section \<open>Facts about the distance\<close>

lemma cos_prod_bounds:
  fixes p q :: real
  shows "- (sin ((q - p) / 2))\<^sup>2 \<le> cos p * cos q" and "cos p * cos q \<le> (cos ((q - p) / 2))\<^sup>2"
proof -
  have e: "cos p * cos q = (cos (p - q) + cos (p + q)) / 2"
    by (rule cos_times_cos)
  have d: "cos (p - q) = cos (2 * ((q - p) / 2))"
    by (metis cos_minus minus_diff_eq mult.commute nonzero_divide_eq_eq zero_neq_numeral)
  have s: "cos (p - q) = 1 - 2 * (sin ((q - p) / 2))\<^sup>2"
    unfolding d by (rule cos_double_sin)
  have c: "cos (p - q) = 2 * (cos ((q - p) / 2))\<^sup>2 - 1"
    unfolding d by (rule cos_double_cos)
  have lo: "- 1 \<le> cos (p + q)" and hi: "cos (p + q) \<le> 1"
    by simp_all
  have "cos p * cos q = (1 - 2 * (sin ((q - p) / 2))\<^sup>2 + cos (p + q)) / 2"
    using e s by simp
  also have "\<dots> \<ge> (1 - 2 * (sin ((q - p) / 2))\<^sup>2 + (- 1)) / 2"
    using lo by (intro divide_right_mono add_left_mono) simp_all
  finally show "- (sin ((q - p) / 2))\<^sup>2 \<le> cos p * cos q"
    by simp
  have "cos p * cos q = (2 * (cos ((q - p) / 2))\<^sup>2 - 1 + cos (p + q)) / 2"
    using e c by simp
  also have "\<dots> \<le> (2 * (cos ((q - p) / 2))\<^sup>2 - 1 + 1) / 2"
    using hi by (intro divide_right_mono add_left_mono) simp_all
  finally show "cos p * cos q \<le> (cos ((q - p) / 2))\<^sup>2"
    by simp
qed

lemma hav_range: "0 \<le> hav lat1 lon1 lat2 lon2" "hav lat1 lon1 lat2 lon2 \<le> 1"
proof -
  define u where "u = radians (lat2 - lat1) / 2"
  define k where "k = cos (radians lat1) * cos (radians lat2)"
  define w where "w = (sin (radians (lon2 - lon1) / 2))\<^sup>2"
  have u: "u = (radians lat2 - radians lat1) / 2"
    by (simp add: u_def radians_def field_simps)
  have w: "0 \<le> w" "w \<le> 1"
    by (simp_all add: w_def abs_square_le_1)
  have k1: "- (sin u)\<^sup>2 \<le> k" and k2: "k \<le> (cos u)\<^sup>2"
    unfolding u k_def by (rule cos_prod_bounds)+
  have h: "hav lat1 lon1 lat2 lon2 = (sin u)\<^sup>2 + k * w"
    by (simp add: hav_def u_def k_def w_def power2_eq_square algebra_simps)
  have s: "(sin u)\<^sup>2 + (cos u)\<^sup>2 = 1" by simp
  have a: "k * w \<le> (cos u)\<^sup>2 * w" using k2 w(1) by (rule mult_right_mono)
  have b: "(cos u)\<^sup>2 * w \<le> (cos u)\<^sup>2 * 1" using w(2) by (intro mult_left_mono) simp_all
  have c: "- (sin u)\<^sup>2 * w \<le> k * w" using k1 w(1) by (rule mult_right_mono)
  have d: "(sin u)\<^sup>2 * w \<le> (sin u)\<^sup>2 * 1" using w(2) by (intro mult_left_mono) simp_all
  show "0 \<le> hav lat1 lon1 lat2 lon2" using h c d by linarith
  show "hav lat1 lon1 lat2 lon2 \<le> 1" using h a b s by linarith
qed

lemma calculate_distance_eq:
  "calculate_distance lat1 lon1 lat2 lon2 = Inr (central_km lat1 lon1 lat2 lon2)"
  using hav_range [of lat1 lon1 lat2 lon2]
  by (simp add: calculate_distance_def pg_sqrt_def Let_def hav_def central_km_def)

lemma getDistanceFrom_eq:
  "userLocation st = Some loc \<Longrightarrow>
   getDistanceFrom st lat' lng' =
     Num (real_of_int (Math_round (central_km (lat loc) (lng loc) lat' lng' * 100)) / 100)"
  using hav_range [of "lat loc" "lng loc" lat' lng']
  by (simp add: getDistanceFrom_def Math_sqrt_def Let_def hav_def toRad_def radians_def central_km_def)

lemma getDistanceFrom_setLocation:
  "getDistanceFrom (setLocation la lo st) lb lob =
     Num (real_of_int (Math_round (central_km la lo lb lob * 100)) / 100)"
  using getDistanceFrom_eq [of "setLocation la lo st" "\<lparr>lat = la, lng = lo, accuracy = None\<rparr>" lb lob]
  by (simp add: setLocation_def)

lemma hav_same: "hav lat1 lon1 lat1 lon1 = 0"
  by (simp add: hav_def radians_def)

lemma central_km_same: "central_km lat1 lon1 lat1 lon1 = 0"
  by (simp add: central_km_def hav_same atan2_def)



lemma round_close: "\<bar>real_of_int (Math_round (x * 100)) / 100 - x\<bar> \<le> 1 / 200"
proof -
  have "\<bar>of_int (round (x * 100)) - x * 100\<bar> \<le> 1 / 2"
    by (rule of_int_round_abs_le)
  then have "\<bar>real_of_int (Math_round (x * 100)) - x * 100\<bar> \<le> 1 / 2"
    by (simp add: Math_round_def round_def)
  then show ?thesis
    by (simp add: abs_le_iff field_simps)
qed

lemma hav_small: "hav 0 0 0 (1 / 100000) = (sin (pi / 36000000))\<^sup>2"
  by (simp add: hav_def radians_def power2_eq_square)

lemma small_angle: "0 < pi / 36000000" "pi / 36000000 < pi / 2"
  using pi_gt_zero by simp_all

lemma central_km_small: "central_km 0 0 0 (1 / 100000) = 6371 * pi / 18000000"
proof -
  let ?x = "pi / 36000000 :: real"
  have s: "0 < sin ?x" using small_angle by (intro sin_gt_zero) simp_all
  have c: "0 < cos ?x" using small_angle by (intro cos_gt_zero_pi) simp_all
  have "1 - (sin ?x)\<^sup>2 = (cos ?x)\<^sup>2"
    by (simp add: cos_squared_eq)
  then have q: "sqrt (1 - (sin ?x)\<^sup>2) = cos ?x" using c by simp
  have p: "sqrt ((sin ?x)\<^sup>2) = sin ?x" using s by simp
  have "atan2 (sin ?x) (cos ?x) = arctan (tan ?x)"
    using c by (simp add: atan2_def tan_def)
  also have "\<dots> = ?x" using small_angle by (intro arctan_tan) simp_all
  finally show ?thesis unfolding central_km_def hav_small p q by simp
qed

lemma round_small: "Math_round (6371 * pi / 18000000 * 100) = 0"
proof -
  have "0 \<le> 6371 * pi / 18000000 * 100 + 1 / 2" using pi_gt_zero by simp
  moreover have "6371 * pi / 18000000 * 100 + 1 / 2 < 1" using pi_less_4 by simp
  ultimately show ?thesis unfolding Math_round_def by (simp add: floor_eq_iff)
qed

lemma central_km_equator:
  assumes "0 \<le> x" "x < 180"
  shows "central_km 0 0 0 x = 6371 * (x * pi / 180)"
proof -
  let ?u = "x * pi / 360"
  have u: "0 \<le> ?u" "?u < pi / 2"
    using assms pi_gt_zero by (simp_all add: field_simps)
  have h: "hav 0 0 0 x = (sin ?u)\<^sup>2"
    by (simp add: hav_def radians_def power2_eq_square field_simps)
  have s: "0 \<le> sin ?u" using u by (intro sin_ge_zero) simp_all
  have m: "- (pi / 2) < ?u" using u(1) pi_gt_zero by linarith
  have c: "0 < cos ?u" using m u(2) by (rule cos_gt_zero_pi)
  have "1 - (sin ?u)\<^sup>2 = (cos ?u)\<^sup>2"
    by (simp add: cos_squared_eq)
  then have q: "sqrt (1 - (sin ?u)\<^sup>2) = cos ?u" using c by simp
  have p: "sqrt ((sin ?u)\<^sup>2) = sin ?u" using s by simp
  have "atan2 (sin ?u) (cos ?u) = arctan (tan ?u)"
    using c by (simp add: atan2_def tan_def)
  also have "\<dots> = ?u" using m u(2) by (rule arctan_tan)
  finally have "atan2 (sin ?u) (cos ?u) = ?u" .
  then show ?thesis unfolding central_km_def h p q by (simp add: mult.commute)
qed

lemma central_km_up: "central_km 0 0 0 (3 / 40000) = 6371 * pi / 2400000"
  using central_km_equator [of "3 / 40000"] by simp

lemma round_up: "Math_round (6371 * pi / 2400000 * 100) = 1"
proof -
  have "1 \<le> 6371 * pi / 2400000 * 100 + 1 / 2" using pi_ge_two by simp
  moreover have "6371 * pi / 2400000 * 100 + 1 / 2 < 2" using pi_less_4 by simp
  ultimately show ?thesis unfolding Math_round_def by (simp add: floor_eq_iff)
qed

lemma round_bounds:
  "x * 100 - 1 / 2 < real_of_int (Math_round (x * 100))"
  "real_of_int (Math_round (x * 100)) \<le> x * 100 + 1 / 2"
  unfolding Math_round_def by linarith+

section \<open>Facts about the search\<close>

lemma ends_with_escape_percent: "\<not> ends_with_escape (xs @ ''%'')"
  by (induction xs rule: ends_with_escape.induct) (simp_all add: like_escape_def)

lemma like_pattern_closed: "\<not> ends_with_escape (like_pattern t)"
  using ends_with_escape_percent [of "''%'' @ t"] by (simp add: like_pattern_def)

lemma sql_ilike_pattern:
  "sql_ilike x (like_pattern t) = Inr (MatchText (lower x) (lower (like_pattern t)))"
  by (simp add: sql_ilike_def like_pattern_closed)

lemma sql_and_True: "sql_and a b = Some True \<longleftrightarrow> a = Some True \<and> b = Some True"
  by (cases "(a, b)" rule: sql_and.cases) auto

lemma sql_or_True: "sql_or a b = Some True \<longleftrightarrow> a = Some True \<or> b = Some True"
  by (cases "(a, b)" rule: sql_or.cases) auto

lemma where_clause_passes:
  "\<exists>b. where_clause t ulat ulon r m s = Inr b \<and> (b = Some True \<longleftrightarrow> row_passes t ulat ulon r m s)"
  by (cases "m_generic_name m")
     (simp_all add: where_clause_def sql_ilike_pattern calculate_distance_eq sql_and_True
        sql_or_True row_passes_def)

lemma select_where_eq: "select_where t ulat ulon r ps = Inr (passing_rows t ulat ulon r ps)"
proof (induction ps)
  case Nil
  show ?case by (simp add: passing_rows_def)
next
  case (Cons p ps)
  obtain m s where p: "p = (m, s)" by (cases p)
  obtain b where b: "where_clause t ulat ulon r m s = Inr b"
    "b = Some True \<longleftrightarrow> row_passes t ulat ulon r m s"
    using where_clause_passes by blast
  show ?case
    using Cons.IH b by (simp add: p calculate_distance_eq passing_rows_def)
qed

lemma search_eq:
  "search_medicines_nearby t ulat ulon r ms ss =
     Inr (sort_key distance_km (passing_rows t ulat ulon r (joined ms ss)))"
  by (simp add: search_medicines_nearby_def select_where_eq)

lemma set_joined:
  "(m, s) \<in> set (joined ms ss) \<longleftrightarrow> m \<in> set ms \<and> s \<in> set ss \<and> m_store_id m = s_id s"
  by (auto simp: joined_def)

lemma in_passing_rows:
  "row \<in> set (passing_rows t ulat ulon r ps) \<longleftrightarrow>
     (\<exists>m s. (m, s) \<in> set ps \<and> row_passes t ulat ulon r m s \<and>
        row = select_list m s (central_km ulat ulon (s_latitude s) (s_longitude s)))"
  by (auto simp: passing_rows_def)

lemma MatchText_literal:
  "\<forall>c\<in>set l. \<not> like_special c \<Longrightarrow> MatchText x (l @ ps) \<longleftrightarrow> (\<exists>y. x = l @ y \<and> MatchText y ps)"
proof (induction l arbitrary: x)
  case Nil
  show ?case by simp
next
  case (Cons c l)
  then have c: "c \<noteq> like_escape" "c \<noteq> CHR ''%''" "c \<noteq> CHR ''_''"
    by (simp_all add: like_special_def)
  from Cons have IH: "\<And>x. MatchText x (l @ ps) \<longleftrightarrow> (\<exists>y. x = l @ y \<and> MatchText y ps)"
    by simp
  show ?case
    by (cases x) (auto simp: c IH)
qed

lemma MatchText_percent: "MatchText x ''%''"
  by (induction x) (simp_all add: like_escape_def)

lemma MatchText_percent_Cons:
  "MatchText x (CHR ''%'' # ps) \<longleftrightarrow> (\<exists>pre y. x = pre @ y \<and> MatchText y ps)"
proof (induction x)
  case Nil
  show ?case by (simp add: like_escape_def)
next
  case (Cons c cs)
  have "MatchText (c # cs) (CHR ''%'' # ps) \<longleftrightarrow> MatchText (c # cs) ps \<or> MatchText cs (CHR ''%'' # ps)"
    by (simp add: like_escape_def)
  also have "\<dots> \<longleftrightarrow> MatchText (c # cs) ps \<or> (\<exists>pre y. cs = pre @ y \<and> MatchText y ps)"
    by (simp only: Cons.IH)
  also have "\<dots> \<longleftrightarrow> (\<exists>pre y. c # cs = pre @ y \<and> MatchText y ps)"
    by (auto simp: append_eq_Cons_conv Cons_eq_append_conv)
  finally show ?case .
qed

lemma MatchText_substring:
  assumes "\<forall>c\<in>set l. \<not> like_special c"
  shows "MatchText x (CHR ''%'' # l @ ''%'') \<longleftrightarrow> sublist l x"
  unfolding MatchText_percent_Cons MatchText_literal [OF assms] sublist_def
  by (auto simp: MatchText_percent)

lemma lower_char_special: "like_special (lower_char c) \<longleftrightarrow> like_special c"
proof (cases "65 \<le> (of_char c :: nat) \<and> (of_char c :: nat) \<le> 90")
  case False
  then have "lower_char c = c" unfolding lower_char_def by (simp only: if_False)
  then show ?thesis by simp
next
  case True
  then have n: "of_char (lower_char c) = (of_char c + 32 :: nat)"
    by (simp add: lower_char_def)
  have "of_char (lower_char c) \<noteq> (of_char x :: nat)" if "like_special x" for x
    using that True unfolding n by (auto simp: like_special_def like_escape_def)
  then have a: "\<not> like_special (lower_char c)" by blast
  have "of_char c \<noteq> (of_char x :: nat)" if "like_special x" for x
    using that True by (auto simp: like_special_def like_escape_def)
  then have b: "\<not> like_special c" by blast
  show ?thesis using a b by simp
qed

lemma lower_like_pattern: "lower (like_pattern t) = CHR ''%'' # lower t @ ''%''"
  by (simp add: lower_def like_pattern_def lower_char_def)

lemma ilike_substring:
  assumes "\<forall>c\<in>set t. \<not> like_special c"
  shows "sql_ilike x (like_pattern t) = Inr (sublist (lower t) (lower x))"
proof -
  have "\<forall>c\<in>set (lower t). \<not> like_special c"
    using assms by (simp add: lower_def lower_char_special)
  then show ?thesis
    by (simp only: sql_ilike_pattern lower_like_pattern MatchText_substring)
qed

lemma quantity_select_list: "quantity (select_list m s d) = m_quantity m"
  by (simp add: select_list_def)

lemma generic_matches_iff:
  "(case m_generic_name m of None \<Rightarrow> False | Some g \<Rightarrow> MatchText (lower g) (lower (like_pattern t))) \<longleftrightarrow>
   (\<exists>g. m_generic_name m = Some g \<and> sql_ilike g (like_pattern t) = Inr True)"
  by (cases "m_generic_name m") (simp_all add: sql_ilike_pattern)

lemma row_passes_iff:
  "row_passes t ulat ulon r m s \<longleftrightarrow>
     m_is_available m = Some True \<and> 0 < m_quantity m \<and> s_is_open s = Some True \<and>
     (sql_ilike (m_name m) (like_pattern t) = Inr True \<or>
      (\<exists>g. m_generic_name m = Some g \<and> sql_ilike g (like_pattern t) = Inr True)) \<and>
     (\<exists>d. calculate_distance ulat ulon (s_latitude s) (s_longitude s) = Inr d \<and> d \<le> r)"
  unfolding row_passes_def generic_matches_iff
  by (simp add: sql_ilike_pattern calculate_distance_eq)

section \<open>Facts about the example data\<close>

lemma lower_simps [simp]: "lower [] = []" "lower (c # cs) = lower_char c # lower cs"
  by (simp_all add: lower_def)

lemma passes_here: "row_passes ''para'' 0 0 10 med_here store_here"
  by (simp add: row_passes_def med_here_def store_here_def like_pattern_def lower_char_def
      char_of_def bit_0 bit_Suc like_escape_def central_km_same)

lemma passes_near: "row_passes ''para'' 0 0 10 med_near store_near"
  using pi_less_4
  by (simp add: row_passes_def med_near_def store_near_def like_pattern_def lower_char_def
      char_of_def bit_0 bit_Suc like_escape_def central_km_small)

lemma joined_both:
  "joined [med_near, med_here] [store_here, store_near] =
     [(med_near, store_near), (med_here, store_here)]"
  by (simp add: joined_def med_near_def med_here_def store_near_def store_here_def)

lemma distance_km_select_list: "distance_km (select_list m s d) = d"
  by (simp add: select_list_def)

lemma search_both:
  "search_medicines_nearby ''para'' 0 0 10 [med_near, med_here] [store_here, store_near] =
     Inr [select_list med_here store_here 0,
          select_list med_near store_near (6371 * pi / 18000000)]"
proof -
  have a: "central_km 0 0 (s_latitude store_here) (s_longitude store_here) = 0"
    by (simp add: store_here_def central_km_same)
  have b: "central_km 0 0 (s_latitude store_near) (s_longitude store_near) = 6371 * pi / 18000000"
    by (simp add: store_near_def central_km_small)
  have c: "(0::real) \<le> 6371 * pi / 18000000" "\<not> 6371 * pi / 18000000 \<le> (0::real)"
    using pi_gt_zero by (simp_all add: not_le)
  show ?thesis
    unfolding search_eq joined_both passing_rows_def using passes_here passes_near c
    by (simp add: a b distance_km_select_list)
qed

lemma joined_here: "joined [med_here] [store_here] = [(med_here, store_here)]"
  by (simp add: joined_def med_here_def store_here_def)

lemma joined_near: "joined [med_near] [store_near] = [(med_near, store_near)]"
  by (simp add: joined_def med_near_def store_near_def)

lemma central_km_here: "central_km 0 0 (s_latitude store_here) (s_longitude store_here) = 0"
  by (simp add: store_here_def central_km_same)

lemma central_km_near:
  "central_km 0 0 (s_latitude store_near) (s_longitude store_near) = 6371 * pi / 18000000"
  by (simp add: store_near_def central_km_small)

lemma search_here:
  "search_medicines_nearby t 0 0 r [med_here] [store_here] =
     Inr (if row_passes t 0 0 r med_here store_here then [select_list med_here store_here 0] else [])"
  by (simp add: search_eq joined_here passing_rows_def central_km_here)

lemma search_near:
  "search_medicines_nearby t 0 0 r [med_near] [store_near] =
     Inr (if row_passes t 0 0 r med_near store_near
          then [select_list med_near store_near (6371 * pi / 18000000)] else [])"
  by (simp add: search_eq joined_near passing_rows_def central_km_near)

lemma passes_underscore: "row_passes ''_'' 0 0 10 med_here store_here"
  by (simp add: row_passes_def med_here_def store_here_def like_pattern_def lower_char_def
      char_of_def bit_0 bit_Suc like_escape_def central_km_same)


section \<open>Facts about the location request\<close>

lemma getUserLocation_call_supported:
  "getUserLocation_call True st = (st\<lparr>isLocating := True, locationError := None\<rparr>, None)"
  by (simp add: getUserLocation_call_def)

lemma step_invariant:
  "(in_flight ap = 0 \<longrightarrow> \<not> isLocating (store ap)) \<Longrightarrow>
   in_flight (step e ap) = 0 \<longrightarrow> \<not> isLocating (store (step e ap))"
  by (cases e)
     (auto simp: getUserLocation_call_def position_callback_def error_callback_def
        setLocation_def clearLocation_def Let_def)

lemma run_invariant:
  "(in_flight ap = 0 \<longrightarrow> \<not> isLocating (store ap)) \<Longrightarrow>
   in_flight (run es ap) = 0 \<longrightarrow> \<not> isLocating (store (run es ap))"
proof (induction es arbitrary: ap)
  case Nil
  then show ?case by simp
next
  case (Cons e es)
  show ?case
    unfolding run.simps by (rule Cons.IH) (rule step_invariant [OF Cons.prems])
qed

section \<open>The distance functions\<close>


text \<open>
  Claim C5, as stated: the client's \<open>getDistanceFrom\<close> and the query's
  \<open>calculate_distance\<close> return equal values. They do not: from \<open>(0, 0)\<close> to
  \<open>(0, 0.00001)\<close> the query returns \<open>6371 * pi / 18000000\<close> (about 0.0011 km) and
  the client returns 0.
\<close>

theorem client_mirror_counterexample:
  "calculate_distance 0 0 0 (1 / 100000) = Inr (6371 * pi / 18000000) \<and>
   getDistanceFrom (setLocation 0 0 initial_store) 0 (1 / 100000) = Num 0 \<and>
   6371 * pi / 18000000 \<noteq> (0 :: real)"
  using round_small
  by (simp add: calculate_distance_eq getDistanceFrom_setLocation central_km_small)

text \<open>
  Claim C5, amended. The client uses the same formula with \<open>R = 6371\<close> but not the same
  rounding: it rounds its result to two decimal places and the query does not. For every
  pair of coordinates in range, whenever \<open>getDistanceFrom\<close>, with the location set to the
  first, returns a number, that number is within 0.01 of the value of
  \<open>calculate_distance\<close>.
\<close>

theorem client_mirror_within_rounding:
  assumes "in_range lat1 lon1" and "in_range lat2 lon2"
    and "getDistanceFrom (setLocation lat1 lon1 st) lat2 lon2 = Num v"
    and "calculate_distance lat1 lon1 lat2 lon2 = Inr d"
  shows "\<bar>v - d\<bar> \<le> 1 / 100"
proof -
  have d: "d = central_km lat1 lon1 lat2 lon2"
    using assms(4) unfolding calculate_distance_eq by simp
  have v: "v = real_of_int (Math_round (d * 100)) / 100"
    using assms(3) unfolding getDistanceFrom_setLocation d by simp
  have "\<bar>v - d\<bar> \<le> 1 / 200"
    unfolding v by (rule round_close)
  then show ?thesis by simp
qed

text \<open>From \<open>(0, 0)\<close> to \<open>(0, 0.000075)\<close>: the query returns about 0.0083 and the client
  0.01.\<close>

theorem client_mirror_within_rounding_witness:
  "in_range 0 0 \<and> in_range 0 (3 / 40000) \<and>
   getDistanceFrom (setLocation 0 0 initial_store) 0 (3 / 40000) = Num (1 / 100) \<and>
   calculate_distance 0 0 0 (3 / 40000) = Inr (6371 * pi / 2400000) \<and>
   \<bar>1 / 100 - 6371 * pi / 2400000\<bar> \<le> (1 / 100 :: real)"
proof -
  have a: "in_range 0 0" "in_range 0 (3 / 40000)"
    by (simp_all add: in_range_def)
  have g: "getDistanceFrom (setLocation 0 0 initial_store) 0 (3 / 40000) = Num (1 / 100)"
    unfolding getDistanceFrom_setLocation central_km_up round_up by simp
  have c: "calculate_distance 0 0 0 (3 / 40000) = Inr (6371 * pi / 2400000)"
    unfolding calculate_distance_eq central_km_up ..
  show ?thesis
    using a g c client_mirror_within_rounding [OF a g c] by simp
qed

section \<open>The location store\<close>

text \<open>
  Claim C8. \<open>setLocation(lat, lng)\<close>, for all arguments and every prior state, sets the
  current coordinate to \<open>{ lat, lng }\<close> and the error to \<open>null\<close>, and leaves the rest of
  the store as it was.
\<close>

theorem setLocation_frame:
  "userLocation (setLocation lat1 lng1 st) = Some \<lparr>lat = lat1, lng = lng1, accuracy = None\<rparr> \<and>
   locationError (setLocation lat1 lng1 st) = None \<and>
   isLocating (setLocation lat1 lng1 st) = isLocating st \<and>
   location_store.more (setLocation lat1 lng1 st) = location_store.more st"
  by (simp add: setLocation_def)

text \<open>
  Claim C9. While no location is set (\<open>userLocation\<close> is \<open>null\<close>),
  \<open>getDistanceFrom\<close> returns \<open>null\<close> for all arguments: no distance, no \<open>NaN\<close>.
\<close>

theorem getDistanceFrom_no_location:
  "userLocation st = None \<Longrightarrow> getDistanceFrom st lat2 lng2 = Null"
  by (simp add: getDistanceFrom_def)

theorem getDistanceFrom_no_location_witness:
  "userLocation (clearLocation (setLocation 12 77 (initial_store :: real location_store))) = None \<and>
   getDistanceFrom (clearLocation (setLocation 12 77 initial_store)) 19 72 = Null"
proof -
  have h: "userLocation (clearLocation (setLocation 12 77 (initial_store :: real location_store))) = None"
    by (simp add: clearLocation_def)
  show ?thesis
    using h getDistanceFrom_no_location [OF h, of 19 72] by simp
qed

section \<open>The nearby search\<close>

text \<open>
  Claim C1, as stated: every record returned has the search term as a substring, the case
  of letters aside, of its name or of its generic name. It need not: the term \<open>_\<close> is a
  pattern for any one character, so the search for \<open>_\<close> returns \<open>Paracetamol\<close>
  (generic name \<open>Acetaminophen\<close>), and neither name contains an underscore.
\<close>

theorem wildcard_term_counterexample:
  "search_medicines_nearby ''_'' 0 0 10 [med_here] [store_here] = Inr [select_list med_here store_here 0] \<and>
   m_name med_here = ''Paracetamol'' \<and> \<not> ci_substring ''_'' ''Paracetamol'' \<and>
   m_generic_name med_here = Some ''Acetaminophen'' \<and> \<not> ci_substring ''_'' ''Acetaminophen''"
proof -
  have a: "search_medicines_nearby ''_'' 0 0 10 [med_here] [store_here] =
      Inr [select_list med_here store_here 0]"
    using passes_underscore by (simp only: search_here if_True)
  have b: "m_name med_here = ''Paracetamol''" "m_generic_name med_here = Some ''Acetaminophen''"
    by (simp_all add: med_here_def)
  have c: "\<not> ci_substring ''_'' ''Paracetamol''" "\<not> ci_substring ''_'' ''Acetaminophen''"
    by (simp_all add: ci_substring_def sublist_Cons_right lower_char_def char_of_def bit_0 bit_Suc)
  show ?thesis
    using a b c by (intro conjI)
qed

text \<open>
  Claim C1, amended. Every record returned by \<open>search_medicines_nearby\<close> comes from a
  medicine and its store for which the availability flag is true, the quantity is
  positive, the open flag is true, the name or the generic name matches the pattern
  \<open>'%' || search_term || '%'\<close> under \<open>ILIKE\<close> (which is the substring test, the case
  of letters aside, whenever the term has no \<open>%\<close>, no \<open>_\<close> and no backslash), and the
  computed distance, which is the record's \<open>distance_km\<close>, is at most \<open>radius_km\<close>.
\<close>

theorem search_results_satisfy_filter:
  "\<exists>rows. search_medicines_nearby t ulat ulon r ms ss = Inr rows \<and>
     (\<forall>row\<in>set rows.
        \<exists>m s. m \<in> set ms \<and> s \<in> set ss \<and> m_store_id m = s_id s \<and>
                row = select_list m s (distance_km row) \<and>
                m_is_available m = Some True \<and> 0 < m_quantity m \<and> 0 < quantity row \<and>
                s_is_open s = Some True \<and>
                (sql_ilike (m_name m) (like_pattern t) = Inr True \<or>
                 (\<exists>g. m_generic_name m = Some g \<and> sql_ilike g (like_pattern t) = Inr True)) \<and>
                ((\<forall>c\<in>set t. \<not> like_special c) \<longrightarrow>
                   ci_substring t (m_name m) \<or> (\<exists>g. m_generic_name m = Some g \<and> ci_substring t g)) \<and>
                calculate_distance ulat ulon (s_latitude s) (s_longitude s) = Inr (distance_km row) \<and>
                distance_km row \<le> r)"
proof -
  let ?rows = "sort_key distance_km (passing_rows t ulat ulon r (joined ms ss))"
  have "\<exists>m s. m \<in> set ms \<and> s \<in> set ss \<and> m_store_id m = s_id s \<and>
           row = select_list m s (distance_km row) \<and>
           m_is_available m = Some True \<and> 0 < m_quantity m \<and> 0 < quantity row \<and>
           s_is_open s = Some True \<and>
           (sql_ilike (m_name m) (like_pattern t) = Inr True \<or>
            (\<exists>g. m_generic_name m = Some g \<and> sql_ilike g (like_pattern t) = Inr True)) \<and>
           ((\<forall>c\<in>set t. \<not> like_special c) \<longrightarrow>
              ci_substring t (m_name m) \<or> (\<exists>g. m_generic_name m = Some g \<and> ci_substring t g)) \<and>
           calculate_distance ulat ulon (s_latitude s) (s_longitude s) = Inr (distance_km row) \<and>
           distance_km row \<le> r"
    if "row \<in> set ?rows" for row
  proof -
    from that have "row \<in> set (passing_rows t ulat ulon r (joined ms ss))"
      by simp
    then obtain m s where j: "(m, s) \<in> set (joined ms ss)"
      and p: "row_passes t ulat ulon r m s"
      and row: "row = select_list m s (central_km ulat ulon (s_latitude s) (s_longitude s))"
      unfolding in_passing_rows by blast
    have d: "distance_km row = central_km ulat ulon (s_latitude s) (s_longitude s)"
      by (simp add: row distance_km_select_list)
    have q: "quantity row = m_quantity m"
      by (simp add: row quantity_select_list)
    from p have c: "m_is_available m = Some True" "0 < m_quantity m" "s_is_open s = Some True"
      "sql_ilike (m_name m) (like_pattern t) = Inr True \<or>
        (\<exists>g. m_generic_name m = Some g \<and> sql_ilike g (like_pattern t) = Inr True)"
      "central_km ulat ulon (s_latitude s) (s_longitude s) \<le> r"
      unfolding row_passes_iff by (simp_all add: calculate_distance_eq)
    have sub: "ci_substring t (m_name m) \<or> (\<exists>g. m_generic_name m = Some g \<and> ci_substring t g)"
      if "\<forall>c\<in>set t. \<not> like_special c"
      using c(4) by (simp add: ilike_substring [OF that] ci_substring_def)
    have "m \<in> set ms \<and> s \<in> set ss \<and> m_store_id m = s_id s \<and>
             row = select_list m s (distance_km row) \<and>
             m_is_available m = Some True \<and> 0 < m_quantity m \<and> 0 < quantity row \<and>
             s_is_open s = Some True \<and>
             (sql_ilike (m_name m) (like_pattern t) = Inr True \<or>
              (\<exists>g. m_generic_name m = Some g \<and> sql_ilike g (like_pattern t) = Inr True)) \<and>
             ((\<forall>c\<in>set t. \<not> like_special c) \<longrightarrow>
                ci_substring t (m_name m) \<or> (\<exists>g. m_generic_name m = Some g \<and> ci_substring t g)) \<and>
             calculate_distance ulat ulon (s_latitude s) (s_longitude s) = Inr (distance_km row) \<and>
             distance_km row \<le> r"
      using j c sub row unfolding d q set_joined calculate_distance_eq by blast
    then show ?thesis by blast
  qed
  then show ?thesis
    unfolding search_eq by blast
qed

text \<open>The search for \<open>para\<close> within 10 km over both example stores: the second row
  meets the conditions the theorem gives.\<close>

theorem search_results_satisfy_filter_witness:
  "search_medicines_nearby ''para'' 0 0 10 [med_near, med_here] [store_here, store_near] =
     Inr [select_list med_here store_here 0, select_list med_near store_near (6371 * pi / 18000000)] \<and>
   distance_km (select_list med_near store_near (6371 * pi / 18000000)) \<le> 10 \<and>
   0 < quantity (select_list med_near store_near (6371 * pi / 18000000)) \<and>
   ci_substring ''para'' ''Paracip''"
proof -
  let ?row = "select_list med_near store_near (6371 * pi / 18000000)"
  have h: "search_medicines_nearby ''para'' 0 0 10 [med_near, med_here] [store_here, store_near] =
     Inr [select_list med_here store_here 0, ?row]"
    by (rule search_both)
  have i: "?row \<in> set [select_list med_here store_here 0, ?row]"
    by simp
  have f: "\<forall>c\<in>set ''para''. \<not> like_special c"
    by (simp add: like_special_def like_escape_def)
  obtain m s where row: "?row = select_list m s (distance_km ?row)"
    and q: "0 < quantity ?row" and d: "distance_km ?row \<le> 10"
    and sub: "(\<forall>c\<in>set ''para''. \<not> like_special c) \<longrightarrow>
       ci_substring ''para'' (m_name m) \<or> (\<exists>g. m_generic_name m = Some g \<and> ci_substring ''para'' g)"
    using search_results_satisfy_filter [of "''para''" 0 0 10 "[med_near, med_here]"
        "[store_here, store_near]"] i
    unfolding h sum.inject by blast
  have "medicine_name ?row = m_name m" "generic_name ?row = m_generic_name m"
    by (subst row, simp add: select_list_def)+
  then have "m_name m = ''Paracip''" "m_generic_name m = None"
    by (simp_all add: select_list_def med_near_def)
  then have "ci_substring ''para'' ''Paracip''"
    using sub f by simp
  then show ?thesis
    using h q d by simp
qed

text \<open>
  Claim C2. The result of \<open>search_medicines_nearby\<close> is in ascending order of
  \<open>distance_km\<close>, for every input.
\<close>

theorem search_sorted:
  "\<exists>rows. search_medicines_nearby t ulat ulon r ms ss = Inr rows \<and> sorted (map distance_km rows)"
  by (simp add: search_eq sorted_sort_key)

text \<open>Two matching stores at different distances, the farther one first in the join:
  the nearer one comes first in the result.\<close>

theorem search_sorted_witness:
  "search_medicines_nearby ''para'' 0 0 10 [med_near, med_here] [store_here, store_near] =
     Inr [select_list med_here store_here 0, select_list med_near store_near (6371 * pi / 18000000)] \<and>
   distance_km (select_list med_here store_here 0)
     \<le> distance_km (select_list med_near store_near (6371 * pi / 18000000)) \<and>
   distance_km (select_list med_here store_here 0)
     \<noteq> distance_km (select_list med_near store_near (6371 * pi / 18000000))"
proof -
  obtain rows where
    r: "search_medicines_nearby ''para'' 0 0 10 [med_near, med_here] [store_here, store_near] = Inr rows"
    and s: "sorted (map distance_km rows)"
    using search_sorted by blast
  have e: "rows = [select_list med_here store_here 0, select_list med_near store_near (6371 * pi / 18000000)]"
    using r unfolding search_both by simp
  have "distance_km (select_list med_here store_here 0)
     \<le> distance_km (select_list med_near store_near (6371 * pi / 18000000))"
    using s unfolding e by simp
  moreover have "6371 * pi / 18000000 \<noteq> (0::real)"
    by simp
  ultimately show ?thesis
    by (simp add: search_both distance_km_select_list)
qed

text \<open>
  Claim C6. The client rounds to two decimal places: on coordinates in range, a number
  returned by \<open>getDistanceFrom\<close> is \<open>k / 100\<close> for an integer \<open>k\<close> next to
  \<open>100 * x\<close>, \<open>x\<close> being the distance at full precision (no farther from it than 1,
  which leaves room for the rounding of the two arithmetics). The query does not round:
  for a medicine and its store that meet the other conditions of the search, the row with
  the distance \<open>d\<close> of \<open>calculate_distance\<close>, as it is, is in the result exactly when
  \<open>d \<le> radius_km\<close>.
\<close>

theorem client_rounds_query_does_not:
  "(userLocation st = Some loc \<and> in_range (lat loc) (lng loc) \<and> in_range lat2 lon2 \<and>
    getDistanceFrom st lat2 lon2 = Num v \<and>
    calculate_distance (lat loc) (lng loc) lat2 lon2 = Inr x \<longrightarrow>
      (\<exists>k. v = real_of_int k / 100 \<and> x * 100 - 1 \<le> real_of_int k \<and> real_of_int k \<le> x * 100 + 1)) \<and>
   (\<exists>d rows. calculate_distance ulat ulon (s_latitude s) (s_longitude s) = Inr d \<and>
          search_medicines_nearby t ulat ulon r ms ss = Inr rows \<and>
          (m \<in> set ms \<and> s \<in> set ss \<and> m_store_id m = s_id s \<and>
           m_is_available m = Some True \<and> 0 < m_quantity m \<and> s_is_open s = Some True \<and>
           (sql_ilike (m_name m) (like_pattern t) = Inr True \<or>
            (\<exists>g. m_generic_name m = Some g \<and> sql_ilike g (like_pattern t) = Inr True)) \<longrightarrow>
           (select_list m s d \<in> set rows \<longleftrightarrow> d \<le> r)))"
proof (rule conjI)
  show "userLocation st = Some loc \<and> in_range (lat loc) (lng loc) \<and> in_range lat2 lon2 \<and>
    getDistanceFrom st lat2 lon2 = Num v \<and>
    calculate_distance (lat loc) (lng loc) lat2 lon2 = Inr x \<longrightarrow>
      (\<exists>k. v = real_of_int k / 100 \<and> x * 100 - 1 \<le> real_of_int k \<and> real_of_int k \<le> x * 100 + 1)"
  proof
    assume a: "userLocation st = Some loc \<and> in_range (lat loc) (lng loc) \<and> in_range lat2 lon2 \<and>
      getDistanceFrom st lat2 lon2 = Num v \<and>
      calculate_distance (lat loc) (lng loc) lat2 lon2 = Inr x"
    then have x: "x = central_km (lat loc) (lng loc) lat2 lon2"
      unfolding calculate_distance_eq by simp
    have v: "v = real_of_int (Math_round (x * 100)) / 100"
      using a getDistanceFrom_eq [of st loc lat2 lon2] unfolding x by simp
    have "x * 100 - 1 \<le> real_of_int (Math_round (x * 100))"
      "real_of_int (Math_round (x * 100)) \<le> x * 100 + 1"
      using round_bounds [of x] by linarith+
    then show "\<exists>k. v = real_of_int k / 100 \<and> x * 100 - 1 \<le> real_of_int k \<and>
        real_of_int k \<le> x * 100 + 1"
      using v by blast
  qed
next
  let ?d = "central_km ulat ulon (s_latitude s) (s_longitude s)"
  let ?rows = "sort_key distance_km (passing_rows t ulat ulon r (joined ms ss))"
  have "select_list m s ?d \<in> set ?rows \<longleftrightarrow> ?d \<le> r"
    if j: "m \<in> set ms \<and> s \<in> set ss \<and> m_store_id m = s_id s"
      and e: "m_is_available m = Some True \<and> 0 < m_quantity m \<and> s_is_open s = Some True \<and>
           (sql_ilike (m_name m) (like_pattern t) = Inr True \<or>
            (\<exists>g. m_generic_name m = Some g \<and> sql_ilike g (like_pattern t) = Inr True))"
  proof
    assume "select_list m s ?d \<in> set ?rows"
    then obtain m' s' where p: "row_passes t ulat ulon r m' s'"
      and row: "select_list m s ?d = select_list m' s' (central_km ulat ulon (s_latitude s') (s_longitude s'))"
      unfolding set_sort in_passing_rows by blast
    have "distance_km (select_list m s ?d) = central_km ulat ulon (s_latitude s') (s_longitude s')"
      unfolding row by (rule distance_km_select_list)
    then have "?d = central_km ulat ulon (s_latitude s') (s_longitude s')"
      by (simp only: distance_km_select_list)
    then show "?d \<le> r" using p by (simp add: row_passes_def)
  next
    assume "?d \<le> r"
    then have "row_passes t ulat ulon r m s"
      using e unfolding row_passes_iff calculate_distance_eq by simp
    then show "select_list m s ?d \<in> set ?rows"
      using j unfolding set_sort in_passing_rows set_joined by blast
  qed
  then show "\<exists>d rows. calculate_distance ulat ulon (s_latitude s) (s_longitude s) = Inr d \<and>
          search_medicines_nearby t ulat ulon r ms ss = Inr rows \<and>
          (m \<in> set ms \<and> s \<in> set ss \<and> m_store_id m = s_id s \<and>
           m_is_available m = Some True \<and> 0 < m_quantity m \<and> s_is_open s = Some True \<and>
           (sql_ilike (m_name m) (like_pattern t) = Inr True \<or>
            (\<exists>g. m_generic_name m = Some g \<and> sql_ilike g (like_pattern t) = Inr True)) \<longrightarrow>
           (select_list m s d \<in> set rows \<longleftrightarrow> d \<le> r))"
    unfolding calculate_distance_eq search_eq by blast
qed

text \<open>A point about 1.1 m away is reported by the client as 0 (rounded down) and one
  about 8.3 m away as 0.01 (rounded up); the search within 0.5 m leaves the store 1.1 m
  away out although its rounded distance is within the radius.\<close>

theorem client_rounds_query_does_not_witness:
  "getDistanceFrom (setLocation 0 0 initial_store) 0 (1 / 100000) = Num 0 \<and>
   getDistanceFrom (setLocation 0 0 initial_store) 0 (3 / 40000) = Num (1 / 100) \<and>
   calculate_distance 0 0 0 (3 / 40000) = Inr (6371 * pi / 2400000) \<and>
   (\<exists>k. (1 / 100 :: real) = real_of_int k / 100 \<and>
        6371 * pi / 2400000 * 100 - 1 \<le> real_of_int k \<and>
        real_of_int k \<le> 6371 * pi / 2400000 * 100 + 1) \<and>
   \<not> 6371 * pi / 18000000 \<le> (1 / 2000 :: real) \<and>
   search_medicines_nearby ''para'' 0 0 (1 / 2000) [med_near] [store_near] = Inr [] \<and>
   search_medicines_nearby ''para'' 0 0 10 [med_near] [store_near] =
     Inr [select_list med_near store_near (6371 * pi / 18000000)]"
proof -
  let ?st = "setLocation 0 0 (initial_store :: real location_store)"
  let ?loc = "\<lparr>lat = 0, lng = 0, accuracy = None\<rparr> :: real location"
  have big: "\<not> 6371 * pi / 18000000 \<le> (1 / 2000 :: real)"
    using pi_ge_two by simp
  have small: "6371 * pi / 18000000 \<le> (10 :: real)"
    using pi_less_4 by simp
  have down: "getDistanceFrom ?st 0 (1 / 100000) = Num 0"
    unfolding getDistanceFrom_setLocation central_km_small round_small by simp
  have up: "getDistanceFrom ?st 0 (3 / 40000) = Num (1 / 100)"
    unfolding getDistanceFrom_setLocation central_km_up round_up by simp
  have cq: "calculate_distance 0 0 0 (3 / 40000) = Inr (6371 * pi / 2400000)"
    unfolding calculate_distance_eq central_km_up ..
  have loc: "userLocation ?st = Some ?loc" "lat ?loc = 0" "lng ?loc = 0"
    by (simp_all add: setLocation_def)
  have rg: "in_range 0 0" "in_range 0 (3 / 40000)"
    by (simp_all add: in_range_def)
  have client: "\<exists>k. (1 / 100 :: real) = real_of_int k / 100 \<and>
        6371 * pi / 2400000 * 100 - 1 \<le> real_of_int k \<and>
        real_of_int k \<le> 6371 * pi / 2400000 * 100 + 1"
    using client_rounds_query_does_not [where st = ?st and loc = ?loc and ?lat2.0 = 0
        and ?lon2.0 = "3 / 40000" and v = "1 / 100" and x = "6371 * pi / 2400000"]
      loc(1) rg up cq
    unfolding loc(2,3) by blast
  have el: "med_near \<in> set [med_near] \<and> store_near \<in> set [store_near] \<and>
      m_store_id med_near = s_id store_near \<and>
      m_is_available med_near = Some True \<and> 0 < m_quantity med_near \<and>
      s_is_open store_near = Some True \<and>
      (sql_ilike (m_name med_near) (like_pattern ''para'') = Inr True \<or>
       (\<exists>g. m_generic_name med_near = Some g \<and> sql_ilike g (like_pattern ''para'') = Inr True))"
    unfolding sql_ilike_pattern
    by (simp add: med_near_def store_near_def like_pattern_def lower_char_def
        char_of_def bit_0 bit_Suc like_escape_def)
  have calc: "calculate_distance 0 0 (s_latitude store_near) (s_longitude store_near) =
      Inr (6371 * pi / 18000000)"
    by (simp add: calculate_distance_eq central_km_near)
  have out: "search_medicines_nearby ''para'' 0 0 (1 / 2000) [med_near] [store_near] = Inr []"
  proof -
    obtain d rows where "calculate_distance 0 0 (s_latitude store_near) (s_longitude store_near) = Inr d"
      and r: "search_medicines_nearby ''para'' 0 0 (1 / 2000) [med_near] [store_near] = Inr rows"
      and "select_list med_near store_near d \<in> set rows \<longleftrightarrow> d \<le> 1 / 2000"
      using client_rounds_query_does_not [where ulat = 0 and ulon = 0 and s = store_near
          and t = "''para''" and r = "1 / 2000" and ms = "[med_near]" and ss = "[store_near]"
          and m = med_near] el
      by blast
    then have "select_list med_near store_near (6371 * pi / 18000000) \<notin> set rows"
      using big unfolding calc by simp
    then have "rows = []"
      using r unfolding search_near by (auto split: if_splits)
    then show ?thesis using r by simp
  qed
  have inside: "search_medicines_nearby ''para'' 0 0 10 [med_near] [store_near] =
     Inr [select_list med_near store_near (6371 * pi / 18000000)]"
  proof -
    obtain d rows where "calculate_distance 0 0 (s_latitude store_near) (s_longitude store_near) = Inr d"
      and r: "search_medicines_nearby ''para'' 0 0 10 [med_near] [store_near] = Inr rows"
      and "select_list med_near store_near d \<in> set rows \<longleftrightarrow> d \<le> 10"
      using client_rounds_query_does_not [where ulat = 0 and ulon = 0 and s = store_near
          and t = "''para''" and r = 10 and ms = "[med_near]" and ss = "[store_near]"
          and m = med_near] el
      by blast
    then have "select_list med_near store_near (6371 * pi / 18000000) \<in> set rows"
      using small unfolding calc by simp
    then have "rows = [select_list med_near store_near (6371 * pi / 18000000)]"
      using r unfolding search_near by (auto split: if_splits)
    then show ?thesis using r by simp
  qed
  show ?thesis
    using down up cq client big out inside by (intro conjI)
qed




section \<open>The location request\<close>

text \<open>
  Claim C10. \<open>getUserLocation\<close> sets \<open>isLocating\<close> on entry and every way it ends
  (geolocation unsupported, the position callback, the error callback) settles the promise
  with \<open>isLocating\<close> false again; so on every run of the store from its initial state,
  \<open>isLocating\<close> is false whenever no request is in flight.
\<close>

theorem getUserLocation_restores_isLocating:
  "isLocating (fst (getUserLocation_call True st)) \<and>
   snd (getUserLocation_call True st) = None \<and>
   \<not> isLocating (fst (getUserLocation outcome st)) \<and>
   (\<exists>r. snd (getUserLocation outcome st) = Some r) \<and>
   (in_flight (run es initial_app) = 0 \<longrightarrow> \<not> isLocating (store (run es initial_app)))"
proof -
  have a: "\<not> isLocating (fst (getUserLocation outcome st)) \<and>
     (\<exists>r. snd (getUserLocation outcome st) = Some r)"
    by (cases outcome)
       (simp_all add: getUserLocation_call_def position_callback_def error_callback_def Let_def)
  have b: "in_flight (run es initial_app) = 0 \<longrightarrow> \<not> isLocating (store (run es initial_app))"
    by (rule run_invariant) (simp add: initial_app_def initial_store_def)
  show ?thesis
    using a b by (simp add: getUserLocation_call_supported)
qed

text \<open>Two overlapping requests and a manual \<open>setLocation\<close> in between, the first
  answered with a position and the second with a timeout.\<close>

theorem getUserLocation_restores_isLocating_witness:
  "in_flight (run [GetUserLocation True, SetLocation 12 77, GetUserLocation True,
       PositionCallback \<lparr>coords_latitude = 28, coords_longitude = 77, coords_accuracy = 5\<rparr>,
       ErrorCallback 3] (initial_app :: real app)) = 0 \<and>
   \<not> isLocating (store (run [GetUserLocation True, SetLocation 12 77, GetUserLocation True,
       PositionCallback \<lparr>coords_latitude = 28, coords_longitude = 77, coords_accuracy = 5\<rparr>,
       ErrorCallback 3] (initial_app :: real app)))"
proof -
  let ?es = "[GetUserLocation True, SetLocation 12 77, GetUserLocation True,
       PositionCallback \<lparr>coords_latitude = 28, coords_longitude = 77, coords_accuracy = 5\<rparr>,
       ErrorCallback 3] :: real event list"
  have h: "in_flight (run ?es (initial_app :: real app)) = 0"
    by (simp add: initial_app_def getUserLocation_call_def Let_def)
  show ?thesis
    using h getUserLocation_restores_isLocating [of initial_store Unsupported ?es] by blast
qed

end
